theory Spec2Isabelle
  imports Complex_Main "HOL-Library.AList"
begin

section \<open>Python values used by the two task modules\<close>

text \<open>
  The development embeds \<^verbatim>\<open>src/tasks/validation.py\<close> and
  \<^verbatim>\<open>src/tasks/mapping.py\<close>. A Python \<^verbatim>\<open>str\<close> is a \<^typ>\<open>string\<close>
  (code points below 256), an exception is a value carrying its class name and
  its message (what \<^verbatim>\<open>str(e)\<close> returns), and every statement that can raise
  returns a sum whose left injection is the exception. Calls to the logger only
  write diagnostics and are left out of the state.
\<close>

datatype exn = Exn (exn_class: string) (str_exn: string)

definition IndexError :: exn where
  "IndexError = Exn ''IndexError'' ''list index out of range''"

text \<open>\<^verbatim>\<open>xs[i]\<close> for a literal index \<open>i \<ge> 0\<close>.\<close>

definition getitem :: "'a list \<Rightarrow> nat \<Rightarrow> exn + 'a" where
  "getitem xs i = (if i < length xs then Inr (xs ! i) else Inl IndexError)"

fun startswith :: "string \<Rightarrow> string \<Rightarrow> bool" where
  "startswith [] s = True"
| "startswith (p # ps) [] = False"
| "startswith (p # ps) (c # cs) = (p = c \<and> startswith ps cs)"

text \<open>
  \<^verbatim>\<open>s.split(sep)\<close> without \<^verbatim>\<open>maxsplit\<close>: the string is cut at every
  occurrence of \<open>sep\<close>, found from left to right and not overlapping. Every call
  site passes a non-empty literal separator (Python raises \<^verbatim>\<open>ValueError\<close> for
  an empty one).
\<close>

function split_py :: "string \<Rightarrow> string \<Rightarrow> string list" where
  "split_py sep [] = [[]]"
| "split_py sep (c # cs) =
     (if sep \<noteq> [] \<and> startswith sep (c # cs)
      then [] # split_py sep (drop (length sep) (c # cs))
      else (case split_py sep cs of
              [] \<Rightarrow> [[c]]
            | p # ps \<Rightarrow> (c # p) # ps))"
  by pat_completeness auto
termination
  by (relation "measure (\<lambda>(sep, s). length s)") auto

text \<open>The code points below 256 that \<^verbatim>\<open>str.strip()\<close> removes.\<close>

definition isspace :: "char \<Rightarrow> bool" where
  "isspace c \<longleftrightarrow> c \<in> set [CHR 0x09, CHR 0x0A, CHR 0x0B, CHR 0x0C, CHR 0x0D,
                          CHR 0x1C, CHR 0x1D, CHR 0x1E, CHR 0x1F, CHR 0x20,
                          CHR 0x85, CHR 0xA0]"

definition strip :: "string \<Rightarrow> string" where
  "strip s = rev (dropWhile isspace (rev (dropWhile isspace s)))"

section \<open>The response parser (\<^verbatim>\<open>parse_openai_response\<close>)\<close>

text \<open>\<^verbatim>\<open>line.split(": ")[1].strip()\<close>, the expression used for each of the three fields.\<close>

definition field :: "string \<Rightarrow> exn + string" where
  "field line = (case getitem (split_py '': '' line) 1 of
                   Inl e \<Rightarrow> Inl e
                 | Inr v \<Rightarrow> Inr (strip v))"

text \<open>The body of the \<^verbatim>\<open>try\<close> block, lines 191 to 206.\<close>

definition parse_body :: "string \<Rightarrow> exn + (string \<times> string \<times> string)" where
  "parse_body response =
     (let lines = split_py [CHR 0x0A] response in
      (case getitem lines 0 of Inl e \<Rightarrow> Inl e | Inr line0 \<Rightarrow>
      (case field line0 of Inl e \<Rightarrow> Inl e | Inr agreement \<Rightarrow>
      (case getitem lines 1 of Inl e \<Rightarrow> Inl e | Inr line1 \<Rightarrow>
      (case field line1 of Inl e \<Rightarrow> Inl e | Inr strategy \<Rightarrow>
        if agreement = ''Disagree'' \<and> length lines > 2
        then (case getitem lines 2 of Inl e \<Rightarrow> Inl e | Inr line2 \<Rightarrow>
             (case field line2 of Inl e \<Rightarrow> Inl e | Inr explanation \<Rightarrow>
                Inr (agreement, strategy, explanation)))
        else Inr (agreement, strategy, ''''))))))"

text \<open>The whole function: any exception of the body becomes the sentinel triple.\<close>

definition parse_openai_response :: "string \<Rightarrow> string \<times> string \<times> string" where
  "parse_openai_response response =
     (case parse_body response of
        Inr result \<Rightarrow> result
      | Inl e \<Rightarrow> (''Error'', ''Error'', ''Error''))"

section \<open>The row processor (\<^verbatim>\<open>process_csv_and_save\<close>)\<close>

text \<open>
  A cell of the data frame is either a \<^verbatim>\<open>str\<close> or some other value (the float
  \<^verbatim>\<open>nan\<close> of an empty cell, a number), given by the name of its type and by
  what \<^verbatim>\<open>str()\<close> makes of it. A row maps column names to cells.
\<close>

datatype cell = Str string | NonStr string string

type_synonym row = "string \<rightharpoonup> cell"

record dataframe =
  columns :: "string list"
  rows :: "row list"

text \<open>How an f-string renders a cell.\<close>

fun format :: "cell \<Rightarrow> string" where
  "format (Str s) = s"
| "format (NonStr ty r) = r"

text \<open>\<^verbatim>\<open>row[col]\<close>.\<close>

definition row_get :: "row \<Rightarrow> string \<Rightarrow> exn + cell" where
  "row_get r col = (case r col of
                      None \<Rightarrow> Inl (Exn ''KeyError'' ([CHR 0x27] @ col @ [CHR 0x27]))
                    | Some c \<Rightarrow> Inr c)"

text \<open>\<^verbatim>\<open>value.split(sep)\<close> on a cell: only a \<^verbatim>\<open>str\<close> has the method.\<close>

fun cell_split :: "cell \<Rightarrow> string \<Rightarrow> exn + string list" where
  "cell_split (Str s) sep = Inr (split_py sep s)"
| "cell_split (NonStr ty r) sep =
     Inl (Exn ''AttributeError''
            ([CHR 0x27] @ ty @ [CHR 0x27] @ '' object has no attribute '' @
             [CHR 0x27] @ ''split'' @ [CHR 0x27]))"

text \<open>\<^verbatim>\<open>sep.join(xs)\<close> on a list of strings.\<close>

fun join :: "string \<Rightarrow> string list \<Rightarrow> string" where
  "join sep [] = []"
| "join sep [x] = x"
| "join sep (x # y # ys) = x @ sep @ join sep (y # ys)"

text \<open>
  What the function receives from outside: the strategy dictionary
  (\<^verbatim>\<open>Keywords.re_strategies\<close>), the prompt builder \<^verbatim>\<open>construct_prompt\<close>,
  the classification client, whose answer may depend on the prompt and on how
  many calls came before, and the file system, which may refuse a write (the
  number is that of the earlier writes; a refused write leaves the file as it
  was).
\<close>

record ('v, 'm) env =
  strategy_dict :: "string \<rightharpoonup> 'v"
  construct_prompt :: "cell \<Rightarrow> cell \<Rightarrow> cell \<Rightarrow> string \<Rightarrow> cell \<Rightarrow> exn + 'm"
  get_openai_response :: "'m \<Rightarrow> nat \<Rightarrow> exn + string"
  write_cache_file :: "nat \<Rightarrow> exn option"

text \<open>
  The state: the dictionary held in the variable \<^verbatim>\<open>cache\<close>, the cache file
  (absent, or the JSON object it holds), the prompts sent to the client so far,
  the number of calls of \<^verbatim>\<open>save_cache\<close> so far, and the output CSV (absent, or
  the rows with their three new columns).
\<close>

record 'm state =
  cache :: "string \<rightharpoonup> string"
  cache_file :: "(string \<rightharpoonup> string) option"
  client_calls :: "'m list"
  save_calls :: nat
  output_csv :: "(row \<times> string \<times> string \<times> string) list option"

definition validate_columns :: "dataframe \<Rightarrow> string list \<Rightarrow> bool" where
  "validate_columns df required_columns =
     (let missing_columns = filter (\<lambda>col. col \<notin> set (columns df)) required_columns
      in if missing_columns \<noteq> [] then False else True)"

definition validate_strategy_code :: "string \<Rightarrow> (string \<rightharpoonup> 'v) \<Rightarrow> bool" where
  "validate_strategy_code strategy_code dict =
     (if dict strategy_code = None then False else True)"

text \<open>The row and the message are only logged; the return value is a fixed string.\<close>

definition handle_row_error :: "row \<Rightarrow> string \<Rightarrow> string" where
  "handle_row_error r error_message = ''Error in OpenAI response''"

definition load_cache :: "'m state \<Rightarrow> (string \<rightharpoonup> string)" where
  "load_cache st = (case cache_file st of Some m \<Rightarrow> m | None \<Rightarrow> Map.empty)"

definition save_cache :: "('v, 'm) env \<Rightarrow> 'm state \<Rightarrow> (exn + unit) \<times> 'm state" where
  "save_cache en st =
     (case write_cache_file en (save_calls st) of
        Some e \<Rightarrow> (Inl e, st\<lparr>save_calls := Suc (save_calls st)\<rparr>)
      | None \<Rightarrow> (Inr (), st\<lparr>save_calls := Suc (save_calls st),
                             cache_file := Some (cache st)\<rparr>))"

definition get_cache_key :: "cell \<Rightarrow> cell \<Rightarrow> cell \<Rightarrow> string \<Rightarrow> string" where
  "get_cache_key company_name city country strategy_code =
     format company_name @ ''_'' @ format city @ ''_'' @ format country @ ''_'' @ strategy_code"

text \<open>Lines 126 to 143: the response for one valid strategy code, from the cache or the client.\<close>

definition get_response ::
  "('v, 'm) env \<Rightarrow> cell \<Rightarrow> cell \<Rightarrow> cell \<Rightarrow> cell \<Rightarrow> string \<Rightarrow> 'm state
     \<Rightarrow> (exn + string) \<times> 'm state" where
  "get_response en company_name city country short_description strategy_code st =
     (let cache_key = get_cache_key company_name city country strategy_code in
      case cache st cache_key of
        Some response \<Rightarrow> (Inr response, st)
      | None \<Rightarrow>
         (case construct_prompt en company_name city country strategy_code short_description of
            Inl e \<Rightarrow> (Inl e, st)
          | Inr messages \<Rightarrow>
             (let st1 = st\<lparr>client_calls := client_calls st @ [messages]\<rparr> in
              case get_openai_response en messages (length (client_calls st)) of
                Inl e \<Rightarrow> (Inl e, st1)
              | Inr response \<Rightarrow>
                 (let st2 = st1\<lparr>cache := (cache st1)(cache_key \<mapsto> response)\<rparr> in
                  case save_cache en st2 of
                    (Inl e, st3) \<Rightarrow> (Inl e, st3)
                  | (Inr u, st3) \<Rightarrow> (Inr response, st3)))))"

text \<open>
  The loop over the strategy codes of one row, lines 118 to 151. The three
  lists are \<^verbatim>\<open>row_agreements\<close>, \<^verbatim>\<open>row_strategies\<close> and \<^verbatim>\<open>row_explanations\<close>.
\<close>

fun process_codes ::
  "('v, 'm) env \<Rightarrow> cell \<Rightarrow> cell \<Rightarrow> cell \<Rightarrow> cell \<Rightarrow> string list
     \<Rightarrow> string list \<times> string list \<times> string list \<Rightarrow> 'm state
     \<Rightarrow> (exn + string list \<times> string list \<times> string list) \<times> 'm state" where
  "process_codes en company_name city country short_description [] acc st = (Inr acc, st)"
| "process_codes en company_name city country short_description (strategy_code # codes)
       (row_agreements, row_strategies, row_explanations) st =
     (if \<not> validate_strategy_code strategy_code (strategy_dict en)
      then process_codes en company_name city country short_description codes
             (row_agreements @ [''Invalid''],
              row_strategies @ [''Invalid strategy code: '' @ strategy_code],
              row_explanations @ ['''']) st
      else (case get_response en company_name city country short_description strategy_code st of
              (Inl e, st') \<Rightarrow> (Inl e, st')
            | (Inr response, st') \<Rightarrow>
               (case parse_openai_response response of
                  (agreement, strategy, explanation) \<Rightarrow>
                    process_codes en company_name city country short_description codes
                      (row_agreements @ [agreement],
                       row_strategies @ [strategy],
                       row_explanations @ [explanation]) st')))"

text \<open>The body of the \<^verbatim>\<open>try\<close> block of one row, lines 106 to 151.\<close>

definition row_body ::
  "('v, 'm) env \<Rightarrow> row \<Rightarrow> 'm state
     \<Rightarrow> (exn + string list \<times> string list \<times> string list) \<times> 'm state" where
  "row_body en r st =
     (case row_get r ''Company_Name'' of Inl e \<Rightarrow> (Inl e, st) | Inr company_name \<Rightarrow>
     (case row_get r ''City'' of Inl e \<Rightarrow> (Inl e, st) | Inr city \<Rightarrow>
     (case row_get r ''Country'' of Inl e \<Rightarrow> (Inl e, st) | Inr country \<Rightarrow>
     (case row_get r ''RE_Strategy_Codes'' of Inl e \<Rightarrow> (Inl e, st) | Inr codes_cell \<Rightarrow>
     (case cell_split codes_cell '', '' of Inl e \<Rightarrow> (Inl e, st) | Inr strategy_codes \<Rightarrow>
     (case row_get r ''Short_Description'' of Inl e \<Rightarrow> (Inl e, st) | Inr short_description \<Rightarrow>
        process_codes en company_name city country short_description strategy_codes
          ([], [], []) st))))))"

text \<open>
  One iteration of the loop over the rows, lines 104 to 161. The three lists
  are \<^verbatim>\<open>openai_agreements\<close>, \<^verbatim>\<open>openai_strategies\<close> and
  \<^verbatim>\<open>openai_explanations\<close>.
\<close>

definition process_row ::
  "('v, 'm) env \<Rightarrow> row \<Rightarrow> string list \<times> string list \<times> string list \<Rightarrow> 'm state
     \<Rightarrow> (string list \<times> string list \<times> string list) \<times> 'm state" where
  "process_row en r acc st =
     (case acc of (openai_agreements, openai_strategies, openai_explanations) \<Rightarrow>
     (case row_body en r st of
        (Inr (row_agreements, row_strategies, row_explanations), st') \<Rightarrow>
          ((openai_agreements @ [join '', '' row_agreements],
            openai_strategies @ [join '', '' row_strategies],
            openai_explanations @ [join '', '' row_explanations]), st')
      | (Inl e, st') \<Rightarrow>
          ((openai_agreements @ [''Error''],
            openai_strategies @ [''Error''],
            openai_explanations @ [handle_row_error r (str_exn e)]), st')))"

fun process_rows ::
  "('v, 'm) env \<Rightarrow> row list \<Rightarrow> string list \<times> string list \<times> string list \<Rightarrow> 'm state
     \<Rightarrow> (string list \<times> string list \<times> string list) \<times> 'm state" where
  "process_rows en [] acc st = (acc, st)"
| "process_rows en (r # rs) acc st =
     (case process_row en r acc st of (acc', st') \<Rightarrow> process_rows en rs acc' st')"

text \<open>
  Lines 163 to 174: the length check on \<^verbatim>\<open>openai_agreements\<close>, the three
  column assignments (pandas raises \<^verbatim>\<open>ValueError\<close> when a list is assigned to
  a column of another length) and the output file.
\<close>

definition length_mismatch :: exn where
  "length_mismatch = Exn ''ValueError''
     ''Length of OpenAI responses does not match the number of rows in the DataFrame.''"

definition set_column :: "dataframe \<Rightarrow> string list \<Rightarrow> exn + string list" where
  "set_column df values =
     (if length values \<noteq> length (rows df)
      then Inl (Exn ''ValueError'' ''Length of values does not match length of index'')
      else Inr values)"

definition finish ::
  "dataframe \<Rightarrow> string list \<times> string list \<times> string list \<Rightarrow> 'm state
     \<Rightarrow> (exn + unit) \<times> 'm state" where
  "finish df acc st =
     (case acc of (openai_agreements, openai_strategies, openai_explanations) \<Rightarrow>
      if length openai_agreements \<noteq> length (rows df) then (Inl length_mismatch, st)
      else
       (case set_column df openai_agreements of Inl e \<Rightarrow> (Inl e, st) | Inr col_a \<Rightarrow>
       (case set_column df openai_strategies of Inl e \<Rightarrow> (Inl e, st) | Inr col_s \<Rightarrow>
       (case set_column df openai_explanations of Inl e \<Rightarrow> (Inl e, st) | Inr col_e \<Rightarrow>
          (Inr (), st\<lparr>output_csv := Some (zip (rows df) (zip col_a (zip col_s col_e)))\<rparr>)))))"

definition required_columns :: "string list" where
  "required_columns = [''Company_Name'', ''City'', ''Country'', ''RE_Strategy_Codes'',
                       ''RE_Strategy_Names'', ''Short_Description'']"

text \<open>
  The whole function, for the data frame that \<^verbatim>\<open>read_csv\<close> returned. With a
  required column missing it returns without writing anything.
\<close>

definition process_csv_and_save ::
  "('v, 'm) env \<Rightarrow> dataframe \<Rightarrow> 'm state \<Rightarrow> (exn + unit) \<times> 'm state" where
  "process_csv_and_save en df st0 =
     (let st = st0\<lparr>cache := load_cache st0\<rparr> in
      if \<not> validate_columns df required_columns then (Inr (), st)
      else (case process_rows en (rows df) ([], [], []) st of
              (acc, st') \<Rightarrow> finish df acc st'))"

text \<open>
  The composite cache keys that the loop of lines 106 to 127 computes for a
  row: one for each code of the row that is a key of the strategy dictionary,
  none when reading the row raises before the loop.
\<close>

definition row_cache_keys :: "(string \<rightharpoonup> 'v) \<Rightarrow> row \<Rightarrow> string list" where
  "row_cache_keys dict r =
     (case row_get r ''Company_Name'' of Inl e \<Rightarrow> [] | Inr company_name \<Rightarrow>
     (case row_get r ''City'' of Inl e \<Rightarrow> [] | Inr city \<Rightarrow>
     (case row_get r ''Country'' of Inl e \<Rightarrow> [] | Inr country \<Rightarrow>
     (case row_get r ''RE_Strategy_Codes'' of Inl e \<Rightarrow> [] | Inr codes_cell \<Rightarrow>
     (case cell_split codes_cell '', '' of Inl e \<Rightarrow> [] | Inr strategy_codes \<Rightarrow>
        map (get_cache_key company_name city country)
          (filter (\<lambda>strategy_code. validate_strategy_code strategy_code dict)
             strategy_codes))))))"

section \<open>The geocoding client (\<^verbatim>\<open>get_osm_coordinates\<close>)\<close>

text \<open>
  A Python \<^verbatim>\<open>float\<close> is a \<^typ>\<open>real\<close> (the service answers with decimal
  strings; \<^verbatim>\<open>nan\<close> and the infinities are outside the model). One entry of the
  JSON answer is given by what \<^verbatim>\<open>float(data['lat'])\<close> and
  \<^verbatim>\<open>float(data['lon'])\<close> make of it: a number, or the exception of a missing
  key or of a string that is no number. A response has its status code and what
  \<^verbatim>\<open>response.json()\<close> returns: the list of entries, or the exception of a body
  that is no JSON.
\<close>

record place =
  float_lat :: "exn + real"
  float_lon :: "exn + real"

record response =
  status_code :: int
  json :: "exn + place list"

text \<open>
  The transport \<^verbatim>\<open>requests.get\<close>: its outcome for a URL may depend on how many
  requests came before, and it may raise (no connection).
\<close>

type_synonym transport = "string \<Rightarrow> nat \<Rightarrow> exn + response"

text \<open>
  The state of the map generation: the URLs requested so far, the durations
  slept so far, and the three variables of the caller. The coordinate cache is
  a JSON object: keys in insertion order, each key once. City names are strings.
\<close>

record map_state =
  requests :: "string list"
  sleeps :: "int list"
  city_coords :: "string \<rightharpoonup> real \<times> real"
  city_coords_cache :: "(string \<times> real \<times> real) list"
  uncached_cities :: "string list"

text \<open>\<^verbatim>\<open>time.sleep(secs)\<close> for an integer argument.\<close>

definition time_sleep :: "int \<Rightarrow> map_state \<Rightarrow> (exn + unit) \<times> map_state" where
  "time_sleep secs st =
     (if secs < 0 then (Inl (Exn ''ValueError'' ''sleep length must be non-negative''), st)
      else (Inr (), st\<lparr>sleeps := sleeps st @ [secs]\<rparr>))"

text \<open>The test of line 25: \<^verbatim>\<open>response.status_code == 200 and response.json()\<close>.\<close>

definition success_test :: "response \<Rightarrow> exn + bool" where
  "success_test r =
     (if status_code r = 200
      then (case json r of Inl e \<Rightarrow> Inl e | Inr results \<Rightarrow> Inr (results \<noteq> []))
      else Inr False)"

text \<open>Lines 26 and 27: the first entry, its latitude, then its longitude.\<close>

definition first_coordinates :: "response \<Rightarrow> exn + real \<times> real" where
  "first_coordinates r =
     (case json r of Inl e \<Rightarrow> Inl e | Inr results \<Rightarrow>
     (case getitem results 0 of Inl e \<Rightarrow> Inl e | Inr data \<Rightarrow>
     (case float_lat data of Inl e \<Rightarrow> Inl e | Inr la \<Rightarrow>
     (case float_lon data of Inl e \<Rightarrow> Inl e | Inr lo \<Rightarrow> Inr (la, lo)))))"

text \<open>
  The loop of lines 21 to 40, by the number of attempts that remain; after the
  last one the function returns \<^verbatim>\<open>(None, None)\<close>.
\<close>

fun attempts ::
  "transport \<Rightarrow> string \<Rightarrow> nat \<Rightarrow> int \<Rightarrow> map_state
     \<Rightarrow> (exn + real option \<times> real option) \<times> map_state" where
  "attempts get url 0 backoff_factor st = (Inr (None, None), st)"
| "attempts get url (Suc n) backoff_factor st =
     (let st1 = st\<lparr>requests := requests st @ [url]\<rparr> in
      case get url (length (requests st)) of
        Inl e \<Rightarrow> (Inl e, st1)
      | Inr response \<Rightarrow>
         (case success_test response of
            Inl e \<Rightarrow> (Inl e, st1)
          | Inr True \<Rightarrow>
             (case first_coordinates response of
                Inl e \<Rightarrow> (Inl e, st1)
              | Inr (la, lo) \<Rightarrow> (Inr (Some la, Some lo), st1))
          | Inr False \<Rightarrow>
             (if status_code response = 429
              then (case time_sleep backoff_factor st1 of
                      (Inl e, st2) \<Rightarrow> (Inl e, st2)
                    | (Inr u, st2) \<Rightarrow> attempts get url n (backoff_factor * 2) st2)
              else (case time_sleep backoff_factor st1 of
                      (Inl e, st2) \<Rightarrow> (Inl e, st2)
                    | (Inr u, st2) \<Rightarrow> attempts get url n (backoff_factor * 2) st2))))"

definition osm_url :: "string \<Rightarrow> string \<Rightarrow> string" where
  "osm_url city country =
     ''https://nominatim.openstreetmap.org/search?q='' @ city @ '','' @ country @
     ''&format=json&limit=1''"

text \<open>
  The function. The argument \<^verbatim>\<open>cache\<close> is \<^verbatim>\<open>None\<close> or a dictionary, and
  \<^verbatim>\<open>range(retries)\<close> is empty for a negative integer.
\<close>

definition get_osm_coordinates ::
  "transport \<Rightarrow> string \<Rightarrow> string \<Rightarrow> (string \<times> real \<times> real) list option \<Rightarrow> int \<Rightarrow> int
     \<Rightarrow> map_state \<Rightarrow> (exn + real option \<times> real option) \<times> map_state" where
  "get_osm_coordinates get city country coords_cache retries backoff_factor st =
     (if (case coords_cache of
            None \<Rightarrow> False
          | Some c \<Rightarrow> c \<noteq> [] \<and> map_of c city \<noteq> None)
      then (case the (map_of (the coords_cache) city) of
              (la, lo) \<Rightarrow> (Inr (Some la, Some lo), st))
      else attempts get (osm_url city country) (nat retries) backoff_factor st)"

definition default_retries :: int where
  "default_retries = 5"

definition default_backoff_factor :: int where
  "default_backoff_factor = 1"

section \<open>The coordinate loop of \<^verbatim>\<open>generate_germany_map\<close>\<close>

text \<open>Truth value of what \<^verbatim>\<open>get_osm_coordinates\<close> returns in one component.\<close>

fun truthy :: "real option \<Rightarrow> bool" where
  "truthy None = False"
| "truthy (Some x) = (x \<noteq> 0)"

text \<open>The body of the loop, lines 88 to 100, for one city.\<close>

definition generate_germany_map_city ::
  "transport \<Rightarrow> string \<Rightarrow> map_state \<Rightarrow> (exn + unit) \<times> map_state" where
  "generate_germany_map_city get city st =
     (if map_of (city_coords_cache st) city \<noteq> None
      then (Inr (), st\<lparr>city_coords :=
                         (city_coords st)(city \<mapsto> the (map_of (city_coords_cache st) city))\<rparr>)
      else
       (let st1 = st\<lparr>uncached_cities := uncached_cities st @ [city]\<rparr> in
        case get_osm_coordinates get city ''Germany'' (Some (city_coords_cache st1))
               default_retries default_backoff_factor st1 of
          (Inl e, st2) \<Rightarrow> (Inl e, st2)
        | (Inr (lat, lon), st2) \<Rightarrow>
           (if truthy lat \<and> truthy lon
            then (let st3 = st2\<lparr>city_coords := (city_coords st2)(city \<mapsto> (the lat, the lon))\<rparr>;
                      st4 = st3\<lparr>city_coords_cache :=
                                  AList.update city (the lat, the lon) (city_coords_cache st3)\<rparr>
                  in time_sleep 1 st4)
            else (Inr (), st2))))"

fun generate_germany_map_cities ::
  "transport \<Rightarrow> string list \<Rightarrow> map_state \<Rightarrow> (exn + unit) \<times> map_state" where
  "generate_germany_map_cities get [] st = (Inr (), st)"
| "generate_germany_map_cities get (city # cities) st =
     (case generate_germany_map_city get city st of
        (Inl e, st') \<Rightarrow> (Inl e, st')
      | (Inr u, st') \<Rightarrow> generate_germany_map_cities get cities st')"

text \<open>\<^verbatim>\<open>Series.unique()\<close>: each value once, in the order of first appearance.\<close>

definition unique :: "'a list \<Rightarrow> 'a list" where
  "unique xs = rev (remdups (rev xs))"

text \<open>
  Lines 79 to 100 for the \<^verbatim>\<open>City\<close> column of the German rows: the cache has
  been loaded into the state, and the two other variables start empty.
\<close>

definition generate_germany_map_coordinates ::
  "transport \<Rightarrow> string list \<Rightarrow> map_state \<Rightarrow> (exn + unit) \<times> map_state" where
  "generate_germany_map_coordinates get cities st =
     generate_germany_map_cities get (unique cities)
       (st\<lparr>city_coords := Map.empty, uncached_cities := []\<rparr>)"

section \<open>Properties of the response parser\<close>

lemma split_py_nonempty: "split_py sep s \<noteq> []"
  by (cases s) (auto split: list.splits)

lemma length_split_py: "0 < length (split_py sep s)"
  using split_py_nonempty [of sep s] by simp

lemma field_raises: "field line = Inl e \<longleftrightarrow> length (split_py '': '' line) < 2 \<and> e = IndexError"
  by (auto simp: field_def getitem_def split: sum.splits if_splits)

lemma field_returns: "field line = Inr v \<longleftrightarrow> 2 \<le> length (split_py '': '' line) \<and> v = strip (split_py '': '' line ! 1)"
  by (auto simp: field_def getitem_def split: sum.splits if_splits)

text \<open>
  C1. The specification expects the whole remainder of a line after its first
  separator, so that the response with the strategy line
  \<^verbatim>\<open>Strategy: R2: Reuse\<close> parses to \<^verbatim>\<open>("Agree", "R2: Reuse", "")\<close>. The
  function cuts the line at every separator and keeps the second piece only: on
  that response it returns \<^verbatim>\<open>("Agree", "R2", "")\<close>.
\<close>

theorem parse_strategy_truncated:
  "parse_openai_response (''Agreement: Agree'' @ [CHR 0x0A] @ ''Strategy: R2: Reuse'')
     = (''Agree'', ''R2'', '''')"
  by (simp add: parse_openai_response_def parse_body_def field_def getitem_def strip_def
        isspace_def)

text \<open>
  C4. When the body of the parser raises nothing, the explanation is read from
  the third line only if the agreement is exactly \<^verbatim>\<open>Disagree\<close> and a third
  line exists; in every other case it is the empty string, whether or not there
  is a third line.
\<close>

theorem explanation_only_when_disagree:
  assumes "parse_body response = Inr (agreement, strategy, explanation)"
  shows "explanation =
           (if agreement = ''Disagree'' \<and> 2 < length (split_py [CHR 0x0A] response)
            then strip (split_py '': '' (split_py [CHR 0x0A] response ! 2) ! 1)
            else '''')"
  using assms
  by (auto simp: parse_body_def Let_def getitem_def field_returns split: sum.splits if_splits)

text \<open>An agreeing response with a third line: the explanation is empty.\<close>

theorem explanation_only_when_disagree_witness:
  "parse_body (''Agreement: Agree'' @ [CHR 0x0A] @ ''Strategy: R2'' @ [CHR 0x0A] @ ''Explanation: none'')
     = Inr (''Agree'', ''R2'', '''')
   \<and> 2 < length (split_py [CHR 0x0A] (''Agreement: Agree'' @ [CHR 0x0A] @ ''Strategy: R2'' @ [CHR 0x0A] @ ''Explanation: none''))"
proof -
  let ?r = "''Agreement: Agree'' @ [CHR 0x0A] @ ''Strategy: R2'' @ [CHR 0x0A] @ ''Explanation: none''"
  obtain x where h: "parse_body ?r = Inr (''Agree'', ''R2'', x)"
    by (simp add: parse_body_def field_def getitem_def strip_def isspace_def)
  have "x = ''''"
    using explanation_only_when_disagree [OF h] by simp
  with h show ?thesis by simp
qed

text \<open>
  C5. The body of the parser raises exactly when the first line has no
  separator, or there is no second line, or the second line has no separator,
  or the agreement is \<^verbatim>\<open>Disagree\<close> and a third line exists that has no
  separator; and whenever it raises, the parser returns the sentinel triple
  \<^verbatim>\<open>("Error", "Error", "Error")\<close> instead of raising.
\<close>

theorem parse_exception_gives_sentinel:
  "((\<exists>e. parse_body response = Inl e) \<longleftrightarrow>
      (let lines = split_py [CHR 0x0A] response in
         length (split_py '': '' (lines ! 0)) < 2
       \<or> length lines < 2
       \<or> length (split_py '': '' (lines ! 1)) < 2
       \<or> (strip (split_py '': '' (lines ! 0) ! 1) = ''Disagree'' \<and> 2 < length lines
            \<and> length (split_py '': '' (lines ! 2)) < 2)))
   \<and> ((\<exists>e. parse_body response = Inl e) \<longrightarrow>
        parse_openai_response response = (''Error'', ''Error'', ''Error''))"
proof -
  let ?lines = "split_py [CHR 0x0A] response"
  have ne: "0 < length ?lines" by (rule length_split_py)
  have a: "(\<exists>e. parse_body response = Inl e) \<longleftrightarrow>
      (let lines = ?lines in
         length (split_py '': '' (lines ! 0)) < 2
       \<or> length lines < 2
       \<or> length (split_py '': '' (lines ! 1)) < 2
       \<or> (strip (split_py '': '' (lines ! 0) ! 1) = ''Disagree'' \<and> 2 < length lines
            \<and> length (split_py '': '' (lines ! 2)) < 2))"
    using ne
    by (auto simp: parse_body_def Let_def getitem_def field_raises field_returns
          split: sum.splits if_splits)
  have b: "(\<exists>e. parse_body response = Inl e) \<longrightarrow>
        parse_openai_response response = (''Error'', ''Error'', ''Error'')"
    by (auto simp: parse_openai_response_def)
  from a b show ?thesis by blast
qed

text \<open>The response \<^verbatim>\<open>garbage\<close> has no separator and yields the sentinel.\<close>

theorem parse_exception_gives_sentinel_witness:
  "(\<exists>e. parse_body ''garbage'' = Inl e)
   \<and> parse_openai_response ''garbage'' = (''Error'', ''Error'', ''Error'')"
proof -
  have h: "\<exists>e. parse_body ''garbage'' = Inl e"
    by (simp add: parse_body_def field_def getitem_def)
  show ?thesis
    using h parse_exception_gives_sentinel [of "''garbage''"] by blast
qed

section \<open>Properties of the geocoding client\<close>

text \<open>
  While the responses are failures (a status other than 200, or no result), each
  attempt sleeps for the current backoff and doubles it.
\<close>

lemma attempts_retry:
  assumes "\<forall>i<k. \<exists>r. get url (length (requests st) + i) = Inr r
                    \<and> (status_code r \<noteq> 200 \<or> json r = Inr [])"
      and "0 \<le> b"
  shows "attempts get url (k + m) b st =
           attempts get url m (b * 2 ^ k)
             (st\<lparr>requests := requests st @ replicate k url,
                 sleeps := sleeps st @ map (\<lambda>i. b * 2 ^ i) [0..<k]\<rparr>)"
  using assms
proof (induction k arbitrary: b st)
  case 0
  then show ?case by simp
next
  case (Suc k)
  from Suc.prems(1) obtain r where r: "get url (length (requests st)) = Inr r"
      "status_code r \<noteq> 200 \<or> json r = Inr []"
    by force
  have test: "success_test r = Inr False"
    using r(2) by (auto simp: success_test_def)
  let ?st2 = "st\<lparr>requests := requests st @ [url], sleeps := sleeps st @ [b]\<rparr>"
  have step: "attempts get url (Suc k + m) b st = attempts get url (k + m) (b * 2) ?st2"
    using r(1) test Suc.prems(2) by (simp add: time_sleep_def)
  have later: "\<forall>i<k. \<exists>r. get url (length (requests ?st2) + i) = Inr r
                    \<and> (status_code r \<noteq> 200 \<or> json r = Inr [])"
    using Suc.prems(1) by force
  have upt: "map (\<lambda>i. b * 2 ^ i) [0..<Suc k] = b # map (\<lambda>i. b * 2 * 2 ^ i) [0..<k]"
    by (simp add: upt_conv_Cons map_Suc_upt [symmetric] del: upt_Suc)
  note step
  also have "attempts get url (k + m) (b * 2) ?st2 =
          attempts get url m (b * 2 * 2 ^ k)
            (?st2\<lparr>requests := requests ?st2 @ replicate k url,
                  sleeps := sleeps ?st2 @ map (\<lambda>i. b * 2 * 2 ^ i) [0..<k]\<rparr>)"
    using Suc.IH [OF later] Suc.prems(2) by simp
  also have "\<dots> = attempts get url m (b * 2 ^ Suc k)
             (st\<lparr>requests := requests st @ replicate (Suc k) url,
                 sleeps := sleeps st @ map (\<lambda>i. b * 2 ^ i) [0..<Suc k]\<rparr>)"
    unfolding upt by (simp add: mult.assoc)
  finally show ?case .
qed

text \<open>
  C2. For a city that is a key of the coordinate cache passed to
  \<^verbatim>\<open>get_osm_coordinates\<close>, the function returns the cached pair and leaves the
  state as it was: no request is issued and nothing is slept, whatever the
  transport would answer and whatever the retry count and the backoff are.
\<close>

theorem cached_city_no_request:
  assumes "map_of c city = Some (la, lo)"
  shows "get_osm_coordinates get city country (Some c) retries backoff_factor st
           = (Inr (Some la, Some lo), st)"
proof -
  from assms have "c \<noteq> []" by auto
  with assms show ?thesis by (simp add: get_osm_coordinates_def)
qed

text \<open>
  C3. For an uncached city and the default backoff of 1: when the first \<open>k\<close>
  responses are failures (status 429, any other status than 200, or status 200
  with no result), the function has slept 1, 2, 4, ... (one sleep per failed
  attempt, each the double of the one before) and goes on with the remaining
  attempts at backoff \<open>2 ^ k\<close>; and when all \<open>retries\<close> attempts fail it
  returns \<^verbatim>\<open>(None, None)\<close>.
\<close>

theorem retry_backoff_doubles:
  assumes "case coords_cache of None \<Rightarrow> True | Some c \<Rightarrow> map_of c city = None"
      and "k \<le> nat retries"
      and "\<forall>i<k. \<exists>r. get (osm_url city country) (length (requests st) + i) = Inr r
                    \<and> (status_code r \<noteq> 200 \<or> json r = Inr [])"
  shows "get_osm_coordinates get city country coords_cache retries default_backoff_factor st =
           attempts get (osm_url city country) (nat retries - k) (2 ^ k)
             (st\<lparr>requests := requests st @ replicate k (osm_url city country),
                 sleeps := sleeps st @ map (\<lambda>i. 2 ^ i) [0..<k]\<rparr>)
         \<and> (k = nat retries \<longrightarrow>
              get_osm_coordinates get city country coords_cache retries default_backoff_factor st =
                (Inr (None, None),
                 st\<lparr>requests := requests st @ replicate k (osm_url city country),
                    sleeps := sleeps st @ map (\<lambda>i. 2 ^ i) [0..<k]\<rparr>))"
proof -
  have miss: "get_osm_coordinates get city country coords_cache retries default_backoff_factor st
                = attempts get (osm_url city country) (nat retries) 1 st"
    using assms(1) by (simp add: get_osm_coordinates_def default_backoff_factor_def split: option.splits)
  have "attempts get (osm_url city country) (k + (nat retries - k)) 1 st =
          attempts get (osm_url city country) (nat retries - k) (1 * 2 ^ k)
             (st\<lparr>requests := requests st @ replicate k (osm_url city country),
                 sleeps := sleeps st @ map (\<lambda>i. 1 * 2 ^ i) [0..<k]\<rparr>)"
    using assms(3)
    by (intro attempts_retry [where k = k and m = "nat retries - k" and b = 1]) simp_all
  with miss assms(2) show ?thesis by auto
qed


text \<open>
  A cached city with a transport that always raises: the cached pair comes back
  and the request and sleep logs stay empty.
\<close>

theorem cached_city_no_request_witness:
  "map_of [(''Berlin'', (52.52, 13.405))] ''Berlin'' = Some (52.52, 13.405 :: real)
   \<and> get_osm_coordinates (\<lambda>url n. Inl (Exn ''ConnectionError'' ''unreachable''))
         ''Berlin'' ''Germany'' (Some [(''Berlin'', (52.52, 13.405))])
         default_retries default_backoff_factor
         \<lparr>requests = [], sleeps = [], city_coords = Map.empty,
          city_coords_cache = [(''Berlin'', (52.52, 13.405))], uncached_cities = []\<rparr>
       = (Inr (Some 52.52, Some 13.405),
          \<lparr>requests = [], sleeps = [], city_coords = Map.empty,
           city_coords_cache = [(''Berlin'', (52.52, 13.405))], uncached_cities = []\<rparr>)"
proof -
  have h: "map_of [(''Berlin'', (52.52, 13.405))] ''Berlin'' = Some (52.52, 13.405 :: real)"
    by simp
  show ?thesis
    using h cached_city_no_request [OF h] by simp
qed

text \<open>
  Five failing answers (429, 429, 200 without result, 503, 429) with the default
  five attempts: the sleeps are 1, 2, 4, 8, 16 and the result is \<^verbatim>\<open>(None, None)\<close>.
\<close>

theorem retry_backoff_doubles_witness:
  "get_osm_coordinates
     (\<lambda>url n. Inr \<lparr>status_code = (if n = 2 then 200 else if n = 3 then 503 else 429),
                    json = Inr []\<rparr>)
     ''Bonn'' ''Germany'' None default_retries default_backoff_factor
     \<lparr>requests = [], sleeps = [], city_coords = Map.empty,
      city_coords_cache = [], uncached_cities = []\<rparr>
   = (Inr (None, None),
      \<lparr>requests = replicate 5 (osm_url ''Bonn'' ''Germany''), sleeps = [1, 2, 4, 8, 16],
       city_coords = Map.empty, city_coords_cache = [], uncached_cities = []\<rparr>)"
proof -
  let ?get = "\<lambda>url n. Inr \<lparr>status_code = (if n = 2 then 200 else if n = 3 then 503 else 429),
                    json = Inr []\<rparr> :: exn + response"
  let ?st = "\<lparr>requests = [], sleeps = [], city_coords = Map.empty,
      city_coords_cache = [], uncached_cities = []\<rparr>"
  have a: "case None :: (string \<times> real \<times> real) list option of None \<Rightarrow> True
             | Some c \<Rightarrow> map_of c ''Bonn'' = None"
    by simp
  have b: "(5::nat) \<le> nat default_retries"
    by (simp add: default_retries_def)
  have c: "\<forall>i<5::nat. \<exists>r. ?get (osm_url ''Bonn'' ''Germany'') (length (requests ?st) + i) = Inr r
                    \<and> (status_code r \<noteq> 200 \<or> json r = Inr [])"
    by simp
  have d: "map (\<lambda>i. 2 ^ i) [0..<5] = [1, 2, 4, 8, 16 :: int]"
    by (simp add: upt_rec)
  have e: "(5::nat) = nat default_retries"
    by (simp add: default_retries_def)
  show ?thesis
    using retry_backoff_doubles [OF a b c] d e by simp
qed

text \<open>
  The client touches only the request log and the sleep log.
\<close>

lemma attempts_frame:
  "attempts get url n b st = (r, st') \<Longrightarrow>
     city_coords st' = city_coords st \<and> city_coords_cache st' = city_coords_cache st
     \<and> uncached_cities st' = uncached_cities st"
proof (induction n arbitrary: b st)
  case 0
  then show ?case by auto
next
  case (Suc n)
  show ?case
  proof (cases "get url (length (requests st))")
    case (Inl e)
    with Suc.prems show ?thesis by auto
  next
    case (Inr resp)
    show ?thesis
    proof (cases "success_test resp")
      case (Inl e)
      with Inr Suc.prems show ?thesis by auto
    next
      case ok: (Inr t)
      show ?thesis
      proof (cases t)
        case True
        with Inr ok Suc.prems show ?thesis
          by (auto simp: Let_def split: sum.splits prod.splits)
      next
        case False
        show ?thesis
        proof (cases "b < 0")
          case True
          with Inr ok False Suc.prems show ?thesis
            by (auto simp: time_sleep_def split: if_splits)
        next
          case nonneg: False
          let ?st2 = "st\<lparr>requests := requests st @ [url], sleeps := sleeps st @ [b]\<rparr>"
          from Inr ok False nonneg Suc.prems
          have "attempts get url n (b * 2) ?st2 = (r, st')"
            by (auto simp: time_sleep_def split: if_splits)
          from Suc.IH [OF this] show ?thesis by simp
        qed
      qed
    qed
  qed
qed

lemma get_osm_coordinates_frame:
  "get_osm_coordinates get city country coords_cache retries b st = (r, st') \<Longrightarrow>
     city_coords st' = city_coords st \<and> city_coords_cache st' = city_coords_cache st
     \<and> uncached_cities st' = uncached_cities st"
  by (auto simp: get_osm_coordinates_def dest: attempts_frame split: if_splits prod.splits)

lemma time_sleep_frame:
  "time_sleep d st = (r, st') \<Longrightarrow>
     city_coords st' = city_coords st \<and> city_coords_cache st' = city_coords_cache st"
  by (auto simp: time_sleep_def split: if_splits)

text \<open>
  The loop body for one city leaves the entries of every other city alone.
\<close>

lemma generate_germany_map_city_frame:
  assumes "generate_germany_map_city get c st = (r, st')" and "c \<noteq> city"
  shows "city_coords st' city = city_coords st city
         \<and> map_of (city_coords_cache st') city = map_of (city_coords_cache st) city"
proof (cases "map_of (city_coords_cache st) c \<noteq> None")
  case True
  with assms show ?thesis by (auto simp: generate_germany_map_city_def)
next
  case False
  let ?st1 = "st\<lparr>uncached_cities := uncached_cities st @ [c]\<rparr>"
  obtain res st2 where look:
    "get_osm_coordinates get c ''Germany'' (Some (city_coords_cache ?st1))
       default_retries default_backoff_factor ?st1 = (res, st2)"
    by (cases "get_osm_coordinates get c ''Germany'' (Some (city_coords_cache ?st1))
       default_retries default_backoff_factor ?st1")
  from get_osm_coordinates_frame [OF look]
  have fr: "city_coords st2 = city_coords st" "city_coords_cache st2 = city_coords_cache st"
    by simp_all
  show ?thesis
  proof (cases res)
    case (Inl e)
    with assms False look fr show ?thesis
      by (auto simp: generate_germany_map_city_def)
  next
    case (Inr p)
    obtain lat lon where p: "p = (lat, lon)" by (cases p)
    show ?thesis
    proof (cases "truthy lat \<and> truthy lon")
      case True
      let ?st4 = "st2\<lparr>city_coords := (city_coords st2)(c \<mapsto> (the lat, the lon)),
                     city_coords_cache := AList.update c (the lat, the lon) (city_coords_cache st2)\<rparr>"
      from assms(1) False look Inr p True
      have "time_sleep 1 ?st4 = (r, st')"
        by (simp add: generate_germany_map_city_def Let_def)
      from time_sleep_frame [OF this] fr assms(2) show ?thesis
        by (simp add: update_conv')
    next
      case no: False
      with assms False look Inr p fr show ?thesis
        by (auto simp: generate_germany_map_city_def Let_def)
    qed
  qed
qed

lemma generate_germany_map_cities_frame:
  "generate_germany_map_cities get cs st = (r, st') \<Longrightarrow> city \<notin> set cs \<Longrightarrow>
     city_coords st' city = city_coords st city
     \<and> map_of (city_coords_cache st') city = map_of (city_coords_cache st) city"
proof (induction cs arbitrary: st)
  case Nil
  then show ?case by auto
next
  case (Cons c cs)
  obtain r1 s1 where one: "generate_germany_map_city get c st = (r1, s1)"
    by (cases "generate_germany_map_city get c st")
  from Cons.prems(2) have "c \<noteq> city" by auto
  note fr = generate_germany_map_city_frame [OF one this]
  show ?case
  proof (cases r1)
    case (Inl e)
    with one Cons.prems fr show ?thesis by auto
  next
    case (Inr u)
    with one Cons.prems(1) have "generate_germany_map_cities get cs s1 = (r, st')" by simp
    from Cons.IH [OF this] Cons.prems(2) fr show ?thesis by simp
  qed
qed

lemma generate_germany_map_cities_append:
  "generate_germany_map_cities get (xs @ ys) st =
     (case generate_germany_map_cities get xs st of
        (Inl e, s) \<Rightarrow> (Inl e, s)
      | (Inr u, s) \<Rightarrow> generate_germany_map_cities get ys s)"
  by (induction xs arbitrary: st) (auto split: prod.splits sum.splits)

lemma distinct_unique: "distinct (unique xs)"
  by (simp add: unique_def)

text \<open>
  C10. In \<^verbatim>\<open>generate_germany_map\<close>, take an uncached city of the unique city
  list whose lookup returns a pair with latitude 0.0 or longitude 0.0. The loop
  body skips it: the state after the body is the state the lookup left, so
  nothing is added to \<^verbatim>\<open>city_coords\<close> or to the cache and the one-second
  courtesy sleep is not taken; and after the whole loop the city is neither in
  \<^verbatim>\<open>city_coords\<close> (the cities that are plotted) nor in the cache.
\<close>

theorem zero_coordinate_city_skipped:
  assumes cities: "unique cities = pre @ city # post"
      and uncached: "map_of (city_coords_cache st) city = None"
      and before: "generate_germany_map_cities get pre
                     (st\<lparr>city_coords := Map.empty, uncached_cities := []\<rparr>) = (Inr (), s1)"
      and lookup: "get_osm_coordinates get city ''Germany'' (Some (city_coords_cache s1))
                     default_retries default_backoff_factor
                     (s1\<lparr>uncached_cities := uncached_cities s1 @ [city]\<rparr>) = (Inr (lat, lon), s2)"
      and zero: "lat = Some 0 \<or> lon = Some 0"
      and after: "generate_germany_map_cities get post s2 = (res, s3)"
  shows "generate_germany_map_city get city s1 = (Inr (), s2)
         \<and> city_coords s2 = city_coords s1
         \<and> city_coords_cache s2 = city_coords_cache s1
         \<and> generate_germany_map_coordinates get cities st = (res, s3)
         \<and> city_coords s3 city = None
         \<and> map_of (city_coords_cache s3) city = None"
proof -
  from distinct_unique [of cities] cities
  have notin: "city \<notin> set pre" "city \<notin> set post" by auto
  from generate_germany_map_cities_frame [OF before notin(1)] uncached
  have s1: "city_coords s1 city = None" "map_of (city_coords_cache s1) city = None"
    by simp_all
  from zero have falsy: "\<not> (truthy lat \<and> truthy lon)" by auto
  from s1(2) lookup falsy
  have step: "generate_germany_map_city get city s1 = (Inr (), s2)"
    by (auto simp: generate_germany_map_city_def Let_def)
  from get_osm_coordinates_frame [OF lookup]
  have s2: "city_coords s2 = city_coords s1" "city_coords_cache s2 = city_coords_cache s1"
    by simp_all
  from before step after
  have whole: "generate_germany_map_coordinates get cities st = (res, s3)"
    by (simp add: generate_germany_map_coordinates_def cities generate_germany_map_cities_append)
  from generate_germany_map_cities_frame [OF after notin(2)] s1 s2
  have "city_coords s3 city = None" "map_of (city_coords_cache s3) city = None"
    by simp_all
  with step s2 whole show ?thesis by simp
qed


text \<open>
  The cities Null, Kiel, Null, where the service places Null at latitude 0.0:
  the loop ends normally and Null is not among the plotted cities.
\<close>

theorem zero_coordinate_city_skipped_witness:
  "fst (generate_germany_map_coordinates
          (\<lambda>url n. Inr \<lparr>status_code = 200,
                         json = Inr [if n = 0 then \<lparr>float_lat = Inr 0, float_lon = Inr 8.5\<rparr>
                                     else \<lparr>float_lat = Inr 54.3, float_lon = Inr 10.1\<rparr>]\<rparr>)
          [''Null'', ''Kiel'', ''Null'']
          \<lparr>requests = [], sleeps = [], city_coords = Map.empty,
           city_coords_cache = [], uncached_cities = []\<rparr>) = Inr ()
   \<and> city_coords (snd (generate_germany_map_coordinates
          (\<lambda>url n. Inr \<lparr>status_code = 200,
                         json = Inr [if n = 0 then \<lparr>float_lat = Inr 0, float_lon = Inr 8.5\<rparr>
                                     else \<lparr>float_lat = Inr 54.3, float_lon = Inr 10.1\<rparr>]\<rparr>)
          [''Null'', ''Kiel'', ''Null'']
          \<lparr>requests = [], sleeps = [], city_coords = Map.empty,
           city_coords_cache = [], uncached_cities = []\<rparr>)) ''Null'' = None"
proof -
  let ?get = "\<lambda>url n. Inr \<lparr>status_code = 200,
                         json = Inr [if n = 0 then \<lparr>float_lat = Inr 0, float_lon = Inr 8.5\<rparr>
                                     else \<lparr>float_lat = Inr 54.3, float_lon = Inr 10.1\<rparr>]\<rparr>
               :: exn + response"
  let ?st = "\<lparr>requests = [], sleeps = [], city_coords = Map.empty,
           city_coords_cache = [], uncached_cities = []\<rparr>"
  let ?s2 = "\<lparr>requests = [osm_url ''Null'' ''Germany''], sleeps = [],
             city_coords = Map.empty, city_coords_cache = [],
             uncached_cities = [''Null'']\<rparr>"
  let ?s3 = "\<lparr>requests = [osm_url ''Null'' ''Germany'', osm_url ''Kiel'' ''Germany''],
             sleeps = [1], city_coords = [''Kiel'' \<mapsto> (54.3, 10.1)],
             city_coords_cache = [(''Kiel'', (54.3, 10.1))],
             uncached_cities = [''Null'', ''Kiel'']\<rparr>"
  have cities: "unique [''Null'', ''Kiel'', ''Null''] = [] @ ''Null'' # [''Kiel'']"
    by (simp add: unique_def)
  have uncached: "map_of (city_coords_cache ?st) ''Null'' = None"
    by simp
  have before: "generate_germany_map_cities ?get []
                  (?st\<lparr>city_coords := Map.empty, uncached_cities := []\<rparr>) = (Inr (), ?st)"
    by simp
  have lookup: "get_osm_coordinates ?get ''Null'' ''Germany'' (Some (city_coords_cache ?st))
                  default_retries default_backoff_factor
                  (?st\<lparr>uncached_cities := uncached_cities ?st @ [''Null'']\<rparr>)
                = (Inr (Some 0, Some 8.5), ?s2)"
    by (simp add: get_osm_coordinates_def default_retries_def default_backoff_factor_def
          success_test_def first_coordinates_def getitem_def eval_nat_numeral)
  have zero: "Some 0 = Some (0::real) \<or> Some (8.5::real) = Some 0"
    by simp
  have after: "generate_germany_map_cities ?get [''Kiel''] ?s2 = (Inr (), ?s3)"
    by (simp add: generate_germany_map_city_def get_osm_coordinates_def default_retries_def
          default_backoff_factor_def success_test_def first_coordinates_def getitem_def
          time_sleep_def eval_nat_numeral)
  show ?thesis
    using zero_coordinate_city_skipped [OF cities uncached before lookup zero after]
    by simp
qed

section \<open>Properties of the row processor\<close>

text \<open>
  The loop over the codes of a row appends one entry per code to each of the
  three lists, and the entry of an unknown code is the invalid marker.
\<close>

lemma process_codes_slots:
  assumes "process_codes en c ci co d codes (ra, rs, re) st = (Inr (ra', rs', re'), st')"
      and "length rs = length ra" and "length re = length ra"
  shows "length ra' = length ra + length codes \<and> length rs' = length ra' \<and> length re' = length ra'
         \<and> (\<forall>i<length ra. ra' ! i = ra ! i \<and> rs' ! i = rs ! i \<and> re' ! i = re ! i)
         \<and> (\<forall>i<length codes. strategy_dict en (codes ! i) = None \<longrightarrow>
               ra' ! (length ra + i) = ''Invalid''
               \<and> rs' ! (length ra + i) = ''Invalid strategy code: '' @ codes ! i
               \<and> re' ! (length ra + i) = '''')"
  using assms
proof (induction codes arbitrary: ra rs re st)
  case Nil
  then show ?case by simp
next
  case (Cons code codes)
  show ?case
  proof (cases "strategy_dict en code = None")
    case True
    let ?ra = "ra @ [''Invalid'']"
    let ?rs = "rs @ [''Invalid strategy code: '' @ code]"
    let ?re = "re @ ['''']"
    from Cons.prems(1) True
    have run: "process_codes en c ci co d codes (?ra, ?rs, ?re) st = (Inr (ra', rs', re'), st')"
      by (simp add: validate_strategy_code_def)
    have ih: "length ra' = length ?ra + length codes \<and> length rs' = length ra' \<and> length re' = length ra'
         \<and> (\<forall>i<length ?ra. ra' ! i = ?ra ! i \<and> rs' ! i = ?rs ! i \<and> re' ! i = ?re ! i)
         \<and> (\<forall>i<length codes. strategy_dict en (codes ! i) = None \<longrightarrow>
               ra' ! (length ?ra + i) = ''Invalid''
               \<and> rs' ! (length ?ra + i) = ''Invalid strategy code: '' @ codes ! i
               \<and> re' ! (length ?ra + i) = '''')"
      using Cons.prems(2,3) by (intro Cons.IH [OF run]) simp_all
    show ?thesis
    proof (intro conjI allI impI)
      fix i assume "i < length ra"
      with ih Cons.prems(2,3) show "ra' ! i = ra ! i" "rs' ! i = rs ! i" "re' ! i = re ! i"
        by (auto simp: nth_append less_Suc_eq dest!: spec [of _ i])
    next
      fix i assume i: "i < length (code # codes)" "strategy_dict en ((code # codes) ! i) = None"
      show "ra' ! (length ra + i) = ''Invalid''"
           "rs' ! (length ra + i) = ''Invalid strategy code: '' @ (code # codes) ! i"
           "re' ! (length ra + i) = ''''"
      proof (atomize (full), cases i)
        case 0
        from ih Cons.prems(2,3) have "ra' ! length ra = ?ra ! length ra"
          "rs' ! length ra = ?rs ! length ra" "re' ! length ra = ?re ! length ra"
          by (auto dest!: spec [of _ "length ra"])
        with 0 Cons.prems(2,3) show "ra' ! (length ra + i) = ''Invalid'' \<and>
           rs' ! (length ra + i) = ''Invalid strategy code: '' @ (code # codes) ! i \<and>
           re' ! (length ra + i) = ''''"
          by (simp add: nth_append)
      next
        case (Suc j)
        with i ih show "ra' ! (length ra + i) = ''Invalid'' \<and>
           rs' ! (length ra + i) = ''Invalid strategy code: '' @ (code # codes) ! i \<and>
           re' ! (length ra + i) = ''''"
          by (auto dest!: spec [of _ j])
      qed
    qed (use ih in simp_all)
  next
    case False
    then obtain response st1 where
      resp: "get_response en c ci co d code st = (Inr response, st1)"
      using Cons.prems(1)
      by (cases "get_response en c ci co d code st")
        (auto simp: validate_strategy_code_def split: sum.splits)
    obtain a s x where parsed: "parse_openai_response response = (a, s, x)"
      by (cases "parse_openai_response response")
    let ?ra = "ra @ [a]"
    let ?rs = "rs @ [s]"
    let ?re = "re @ [x]"
    from Cons.prems(1) False resp parsed
    have run: "process_codes en c ci co d codes (?ra, ?rs, ?re) st1 = (Inr (ra', rs', re'), st')"
      by (simp add: validate_strategy_code_def)
    have ih: "length ra' = length ?ra + length codes \<and> length rs' = length ra' \<and> length re' = length ra'
         \<and> (\<forall>i<length ?ra. ra' ! i = ?ra ! i \<and> rs' ! i = ?rs ! i \<and> re' ! i = ?re ! i)
         \<and> (\<forall>i<length codes. strategy_dict en (codes ! i) = None \<longrightarrow>
               ra' ! (length ?ra + i) = ''Invalid''
               \<and> rs' ! (length ?ra + i) = ''Invalid strategy code: '' @ codes ! i
               \<and> re' ! (length ?ra + i) = '''')"
      using Cons.prems(2,3) by (intro Cons.IH [OF run]) simp_all
    show ?thesis
    proof (intro conjI allI impI)
      fix i assume "i < length ra"
      with ih Cons.prems(2,3) show "ra' ! i = ra ! i" "rs' ! i = rs ! i" "re' ! i = re ! i"
        by (auto simp: nth_append less_Suc_eq dest!: spec [of _ i])
    next
      fix i assume i: "i < length (code # codes)" "strategy_dict en ((code # codes) ! i) = None"
      with False obtain j where j: "i = Suc j" by (cases i) auto
      with i ih show "ra' ! (length ra + i) = ''Invalid''"
           "rs' ! (length ra + i) = ''Invalid strategy code: '' @ (code # codes) ! i"
           "re' ! (length ra + i) = ''''"
        by (auto dest!: spec [of _ j])
    qed (use ih in simp_all)
  qed
qed

text \<open>
  C6. For a strategy code that is not a key of the strategy dictionary, the loop
  over the codes appends \<^verbatim>\<open>"Invalid"\<close>, \<^verbatim>\<open>"Invalid strategy code: <code>"\<close> and
  the empty string to the three row lists and goes on with the same state: the
  cache, the cache file, the calls of the client and the calls of
  \<^verbatim>\<open>save_cache\<close> are untouched. When the loop over all codes of a row ends
  normally, the slot of every unknown code holds exactly that triple.
\<close>

theorem invalid_code_no_interaction:
  "(strategy_dict en code = None \<longrightarrow>
      process_codes en c ci co d (code # codes) (ra, rs, re) st =
        process_codes en c ci co d codes
          (ra @ [''Invalid''], rs @ [''Invalid strategy code: '' @ code], re @ ['''']) st
      \<and> process_codes en c ci co d [code] (ra, rs, re) st =
          (Inr (ra @ [''Invalid''], rs @ [''Invalid strategy code: '' @ code], re @ ['''']), st))
   \<and> (process_codes en c ci co d all_codes ([], [], []) st = (Inr (ra', rs', re'), st') \<longrightarrow>
        (\<forall>i<length all_codes. strategy_dict en (all_codes ! i) = None \<longrightarrow>
           ra' ! i = ''Invalid''
           \<and> rs' ! i = ''Invalid strategy code: '' @ all_codes ! i
           \<and> re' ! i = ''''))"
proof (intro conjI impI)
  assume "strategy_dict en code = None"
  then show "process_codes en c ci co d (code # codes) (ra, rs, re) st =
        process_codes en c ci co d codes
          (ra @ [''Invalid''], rs @ [''Invalid strategy code: '' @ code], re @ ['''']) st"
    and "process_codes en c ci co d [code] (ra, rs, re) st =
          (Inr (ra @ [''Invalid''], rs @ [''Invalid strategy code: '' @ code], re @ ['''']), st)"
    by (simp_all add: validate_strategy_code_def)
next
  assume "process_codes en c ci co d all_codes ([], [], []) st = (Inr (ra', rs', re'), st')"
  from process_codes_slots [OF this]
  show "\<forall>i<length all_codes. strategy_dict en (all_codes ! i) = None \<longrightarrow>
           ra' ! i = ''Invalid''
           \<and> rs' ! i = ''Invalid strategy code: '' @ all_codes ! i
           \<and> re' ! i = ''''"
    by simp
qed

text \<open>
  The unknown code R99 with a client that would raise: the triple is emitted and
  the state is the one before.
\<close>

theorem invalid_code_no_interaction_witness:
  "process_codes
     \<lparr>strategy_dict = [''R2'' \<mapsto> ''Reuse''],
      construct_prompt = (\<lambda>company city country code description. Inr code),
      get_openai_response = (\<lambda>messages n. Inl (Exn ''TimeoutError'' ''timed out'')),
      write_cache_file = (\<lambda>n. None)\<rparr>
     (Str ''Acme'') (Str ''Berlin'') (Str ''Germany'') (Str ''repairs phones'') [''R99'']
     ([], [], [])
     \<lparr>cache = Map.empty, cache_file = None, client_calls = [], save_calls = 0,
      output_csv = None\<rparr>
   = (Inr ([''Invalid''], [''Invalid strategy code: R99''], ['''']),
      \<lparr>cache = Map.empty, cache_file = None, client_calls = [], save_calls = 0,
       output_csv = None\<rparr>)"
proof -
  let ?en = "\<lparr>strategy_dict = [''R2'' \<mapsto> ''Reuse''],
      construct_prompt = (\<lambda>company city country code description. Inr code),
      get_openai_response = (\<lambda>messages n. Inl (Exn ''TimeoutError'' ''timed out'')),
      write_cache_file = (\<lambda>n. None)\<rparr> :: (string, string) env"
  have h: "strategy_dict ?en ''R99'' = None"
    by simp
  show ?thesis
    using h invalid_code_no_interaction [of ?en "''R99''" "Str ''Acme''" "Str ''Berlin''"
        "Str ''Germany''" "Str ''repairs phones''" "[]" "[]" "[]" "[]"]
    by simp
qed

lemma process_row_length:
  "process_row en r (a, s, x) st = ((a', s', x'), st') \<Longrightarrow>
     length a' = Suc (length a) \<and> length s' = Suc (length s) \<and> length x' = Suc (length x)"
  by (auto simp: process_row_def split: prod.splits sum.splits)

lemma process_rows_length:
  "process_rows en rs (a, s, x) st = ((a', s', x'), st') \<Longrightarrow>
     length a' = length a + length rs \<and> length s' = length s + length rs
     \<and> length x' = length x + length rs"
proof (induction rs arbitrary: a s x st)
  case Nil
  then show ?case by simp
next
  case (Cons r rs)
  obtain a1 s1 x1 st1 where one: "process_row en r (a, s, x) st = ((a1, s1, x1), st1)"
    by (metis prod.exhaust)
  with Cons.prems have "process_rows en rs (a1, s1, x1) st1 = ((a', s', x'), st')"
    by simp
  from Cons.IH [OF this] process_row_length [OF one] show ?case by simp
qed

text \<open>
  C8. The loop over the rows started with empty lists ends with three lists that
  have one entry per row. The check after the loop raises the
  \<^verbatim>\<open>ValueError\<close> of line 165 whenever the number of agreements differs from the
  number of rows, and with any of the three lists of another length than the
  number of rows the final step raises a \<^verbatim>\<open>ValueError\<close> and leaves the state,
  hence the output file, as it was.
\<close>

theorem row_count_invariant:
  "(process_rows en (rows df) ([], [], []) st = ((a, s, x), st') \<longrightarrow>
      length a = length (rows df) \<and> length s = length (rows df) \<and> length x = length (rows df))
   \<and> (length a0 \<noteq> length (rows df) \<longrightarrow> finish df (a0, s0, x0) st1 = (Inl length_mismatch, st1))
   \<and> ((length a0 \<noteq> length (rows df) \<or> length s0 \<noteq> length (rows df)
         \<or> length x0 \<noteq> length (rows df)) \<longrightarrow>
        (\<exists>e. finish df (a0, s0, x0) st1 = (Inl e, st1) \<and> exn_class e = ''ValueError''))"
proof (intro conjI impI)
  assume "process_rows en (rows df) ([], [], []) st = ((a, s, x), st')"
  from process_rows_length [OF this]
  show "length a = length (rows df)" "length s = length (rows df)" "length x = length (rows df)"
    by simp_all
next
  assume "length a0 \<noteq> length (rows df)"
  then show "finish df (a0, s0, x0) st1 = (Inl length_mismatch, st1)"
    by (simp add: finish_def)
next
  assume "length a0 \<noteq> length (rows df) \<or> length s0 \<noteq> length (rows df)
         \<or> length x0 \<noteq> length (rows df)"
  then show "\<exists>e. finish df (a0, s0, x0) st1 = (Inl e, st1) \<and> exn_class e = ''ValueError''"
    by (auto simp: finish_def set_column_def length_mismatch_def)
qed

text \<open>
  Two rows give two entries, and one accumulated entry for two rows raises.
\<close>

theorem row_count_invariant_witness:
  "length (fst (fst (process_rows
      \<lparr>strategy_dict = [''R2'' \<mapsto> ''Reuse''],
       construct_prompt = (\<lambda>company city country code description. Inr code),
       get_openai_response = (\<lambda>messages n. Inl (Exn ''TimeoutError'' ''timed out'')),
       write_cache_file = (\<lambda>n. None)\<rparr>
      (rows \<lparr>columns = [], rows = [Map.empty, Map.empty]\<rparr>) ([], [], [])
      \<lparr>cache = Map.empty, cache_file = None, client_calls = [], save_calls = 0,
       output_csv = None\<rparr>))) = 2
   \<and> finish \<lparr>columns = [], rows = [Map.empty, Map.empty]\<rparr>
        ([''Agree''], [''R2''], [''''])
        (\<lparr>cache = Map.empty, cache_file = None, client_calls = [], save_calls = 0,
          output_csv = None\<rparr> :: string state)
      = (Inl length_mismatch,
         \<lparr>cache = Map.empty, cache_file = None, client_calls = [], save_calls = 0,
          output_csv = None\<rparr>)"
proof -
  let ?en = "\<lparr>strategy_dict = [''R2'' \<mapsto> ''Reuse''],
       construct_prompt = (\<lambda>company city country code description. Inr code),
       get_openai_response = (\<lambda>messages n. Inl (Exn ''TimeoutError'' ''timed out'')),
       write_cache_file = (\<lambda>n. None)\<rparr> :: (string, string) env"
  let ?df = "\<lparr>columns = [], rows = [Map.empty, Map.empty]\<rparr>"
  let ?st = "\<lparr>cache = Map.empty, cache_file = None, client_calls = [], save_calls = 0,
       output_csv = None\<rparr> :: string state"
  obtain a s x st' where run: "process_rows ?en (rows ?df) ([], [], []) ?st = ((a, s, x), st')"
    by (metis prod.exhaust)
  have short: "length [''Agree''] \<noteq> length (rows ?df)"
    by simp
  from run short
    row_count_invariant [of ?en ?df ?st a s x st' "[''Agree'']" "[''R2'']" "['''']" ?st]
  show ?thesis by simp
qed

text \<open>
  C7, as stated, fails: for a row whose processing is left by the exception of a
  client that timed out (message \<^verbatim>\<open>timed out\<close>), the recorded explanation is not
  that message.
\<close>

theorem row_error_message_counterexample:
  "row_body
     \<lparr>strategy_dict = [''R2'' \<mapsto> ''Reuse''],
      construct_prompt = (\<lambda>company city country code description. Inr code),
      get_openai_response = (\<lambda>messages n. Inl (Exn ''TimeoutError'' ''timed out'')),
      write_cache_file = (\<lambda>n. None)\<rparr>
     [''Company_Name'' \<mapsto> Str ''Acme'', ''City'' \<mapsto> Str ''Berlin'',
      ''Country'' \<mapsto> Str ''Germany'', ''RE_Strategy_Codes'' \<mapsto> Str ''R2'',
      ''Short_Description'' \<mapsto> Str ''repairs phones'']
     \<lparr>cache = Map.empty, cache_file = None, client_calls = [], save_calls = 0,
      output_csv = None\<rparr>
   = (Inl (Exn ''TimeoutError'' ''timed out''),
      \<lparr>cache = Map.empty, cache_file = None, client_calls = [''R2''], save_calls = 0,
       output_csv = None\<rparr>)
   \<and> fst (process_row
     \<lparr>strategy_dict = [''R2'' \<mapsto> ''Reuse''],
      construct_prompt = (\<lambda>company city country code description. Inr code),
      get_openai_response = (\<lambda>messages n. Inl (Exn ''TimeoutError'' ''timed out'')),
      write_cache_file = (\<lambda>n. None)\<rparr>
     [''Company_Name'' \<mapsto> Str ''Acme'', ''City'' \<mapsto> Str ''Berlin'',
      ''Country'' \<mapsto> Str ''Germany'', ''RE_Strategy_Codes'' \<mapsto> Str ''R2'',
      ''Short_Description'' \<mapsto> Str ''repairs phones'']
     ([], [], [])
     \<lparr>cache = Map.empty, cache_file = None, client_calls = [], save_calls = 0,
      output_csv = None\<rparr>)
   \<noteq> ([''Error''], [''Error''], [str_exn (Exn ''TimeoutError'' ''timed out'')])"
  by (simp add: process_row_def row_body_def row_get_def validate_strategy_code_def
        get_response_def get_cache_key_def handle_row_error_def)

text \<open>
  C7, amended. For a row whose \<^verbatim>\<open>try\<close> body is left by an exception, the row
  processor records \<^verbatim>\<open>"Error"\<close>, \<^verbatim>\<open>"Error"\<close> and the fixed text
  \<^verbatim>\<open>"Error in OpenAI response"\<close> (the message of the exception is only logged),
  and goes on with the next row from the state the exception left.
\<close>

theorem row_exception_recorded:
  assumes "row_body en r st = (Inl e, st')"
  shows "process_row en r (a, s, x) st =
           ((a @ [''Error''], s @ [''Error''], x @ [''Error in OpenAI response'']), st')
         \<and> process_rows en (r # rs) (a, s, x) st =
             process_rows en rs
               (a @ [''Error''], s @ [''Error''], x @ [''Error in OpenAI response'']) st'"
  using assms by (simp add: process_row_def handle_row_error_def)

text \<open>
  A row with an empty code cell followed by a regular row: the first is
  recorded as an error and the second is classified.
\<close>

theorem row_exception_recorded_witness:
  "process_rows
     \<lparr>strategy_dict = [''R2'' \<mapsto> ''Reuse''],
      construct_prompt = (\<lambda>company city country code description. Inr code),
      get_openai_response = (\<lambda>messages n. Inr (''Agreement: Agree'' @ [CHR 0x0A] @ ''Strategy: R2'')),
      write_cache_file = (\<lambda>n. None)\<rparr>
     [[''Company_Name'' \<mapsto> Str ''Acme'', ''City'' \<mapsto> Str ''Berlin'',
       ''Country'' \<mapsto> Str ''Germany'', ''RE_Strategy_Codes'' \<mapsto> NonStr ''float'' ''nan'',
       ''Short_Description'' \<mapsto> Str ''repairs phones''],
      [''Company_Name'' \<mapsto> Str ''Bolt'', ''City'' \<mapsto> Str ''Kiel'',
       ''Country'' \<mapsto> Str ''Germany'', ''RE_Strategy_Codes'' \<mapsto> Str ''R2'',
       ''Short_Description'' \<mapsto> Str ''resells bikes'']]
     ([], [], [])
     \<lparr>cache = Map.empty, cache_file = None, client_calls = [], save_calls = 0,
      output_csv = None\<rparr>
   = (([''Error'', ''Agree''], [''Error'', ''R2''], [''Error in OpenAI response'', '''']),
      \<lparr>cache = [''Bolt_Kiel_Germany_R2'' \<mapsto> ''Agreement: Agree'' @ [CHR 0x0A] @ ''Strategy: R2''],
       cache_file = Some [''Bolt_Kiel_Germany_R2'' \<mapsto> ''Agreement: Agree'' @ [CHR 0x0A] @ ''Strategy: R2''],
       client_calls = [''R2''], save_calls = 1, output_csv = None\<rparr>)"
proof -
  let ?en = "\<lparr>strategy_dict = [''R2'' \<mapsto> ''Reuse''],
      construct_prompt = (\<lambda>company city country code description. Inr code),
      get_openai_response = (\<lambda>messages n. Inr (''Agreement: Agree'' @ [CHR 0x0A] @ ''Strategy: R2'')),
      write_cache_file = (\<lambda>n. None)\<rparr> :: (string, string) env"
  let ?r1 = "[''Company_Name'' \<mapsto> Str ''Acme'', ''City'' \<mapsto> Str ''Berlin'',
       ''Country'' \<mapsto> Str ''Germany'', ''RE_Strategy_Codes'' \<mapsto> NonStr ''float'' ''nan'',
       ''Short_Description'' \<mapsto> Str ''repairs phones'']"
  let ?r2 = "[''Company_Name'' \<mapsto> Str ''Bolt'', ''City'' \<mapsto> Str ''Kiel'',
       ''Country'' \<mapsto> Str ''Germany'', ''RE_Strategy_Codes'' \<mapsto> Str ''R2'',
       ''Short_Description'' \<mapsto> Str ''resells bikes'']"
  let ?st = "\<lparr>cache = Map.empty, cache_file = None, client_calls = [], save_calls = 0,
      output_csv = None\<rparr> :: string state"
  have raised: "row_body ?en ?r1 ?st =
      (Inl (Exn ''AttributeError''
              ([CHR 0x27] @ ''float'' @ [CHR 0x27] @ '' object has no attribute '' @
               [CHR 0x27] @ ''split'' @ [CHR 0x27])), ?st)"
    by (simp add: row_body_def row_get_def)
  have rest: "process_rows ?en [?r2] ([''Error''], [''Error''], [''Error in OpenAI response'']) ?st
     = (([''Error'', ''Agree''], [''Error'', ''R2''], [''Error in OpenAI response'', '''']),
      \<lparr>cache = [''Bolt_Kiel_Germany_R2'' \<mapsto> ''Agreement: Agree'' @ [CHR 0x0A] @ ''Strategy: R2''],
       cache_file = Some [''Bolt_Kiel_Germany_R2'' \<mapsto> ''Agreement: Agree'' @ [CHR 0x0A] @ ''Strategy: R2''],
       client_calls = [''R2''], save_calls = 1, output_csv = None\<rparr>)"
    by (simp add: process_row_def row_body_def row_get_def validate_strategy_code_def
          get_response_def get_cache_key_def save_cache_def parse_openai_response_def
          parse_body_def field_def getitem_def strip_def isspace_def Let_def)
  from row_exception_recorded [OF raised, of "[]" "[]" "[]" "[?r2]"] rest
  show ?thesis by simp
qed

section \<open>Runs over a cache that already holds every key\<close>

lemma get_response_cached:
  "cache st (get_cache_key c ci co code) = Some response \<Longrightarrow>
     get_response en c ci co d code st = (Inr response, st)"
  by (simp add: get_response_def)

lemma process_codes_cached:
  assumes "\<forall>code\<in>set codes. validate_strategy_code code (strategy_dict en) \<longrightarrow>
             cache st (get_cache_key c ci co code) \<noteq> None"
      and "strategy_dict en2 = strategy_dict en" and "cache st2 = cache st"
  shows "\<exists>res. process_codes en c ci co d codes acc st = (Inr res, st)
               \<and> process_codes en2 c ci co d codes acc st2 = (Inr res, st2)"
  using assms(1)
proof (induction codes arbitrary: acc)
  case Nil
  show ?case by (intro exI [of _ acc]) simp
next
  case (Cons code codes)
  obtain ra rs re where acc: "acc = (ra, rs, re)" by (cases acc) auto
  from Cons.prems have rest: "\<forall>code\<in>set codes. validate_strategy_code code (strategy_dict en) \<longrightarrow>
             cache st (get_cache_key c ci co code) \<noteq> None"
    by simp
  show ?case
  proof (cases "validate_strategy_code code (strategy_dict en)")
    case False
    with Cons.IH [OF rest] assms(2) show ?thesis
      unfolding acc by simp
  next
    case True
    with Cons.prems obtain response where
      hit: "cache st (get_cache_key c ci co code) = Some response"
      by auto
    with assms(3) have hit2: "cache st2 (get_cache_key c ci co code) = Some response"
      by simp
    obtain a s x where parsed: "parse_openai_response response = (a, s, x)"
      by (cases "parse_openai_response response")
    from Cons.IH [OF rest, of "(ra @ [a], rs @ [s], re @ [x])"] True assms(2) parsed
      get_response_cached [OF hit, of en d] get_response_cached [OF hit2, of en2 d]
    show ?thesis
      unfolding acc by simp
  qed
qed

lemma row_body_cached:
  assumes "\<forall>k\<in>set (row_cache_keys (strategy_dict en) r). cache st k \<noteq> None"
      and "strategy_dict en2 = strategy_dict en" and "cache st2 = cache st"
  shows "\<exists>res. row_body en r st = (res, st) \<and> row_body en2 r st2 = (res, st2)"
proof (cases "row_get r ''Company_Name''")
  case (Inl e)
  then show ?thesis by (simp add: row_body_def)
next
  case c: (Inr c)
  show ?thesis
  proof (cases "row_get r ''City''")
    case (Inl e)
    with c show ?thesis by (simp add: row_body_def)
  next
    case ci: (Inr ci)
    show ?thesis
    proof (cases "row_get r ''Country''")
      case (Inl e)
      with c ci show ?thesis by (simp add: row_body_def)
    next
      case co: (Inr co)
      show ?thesis
      proof (cases "row_get r ''RE_Strategy_Codes''")
        case (Inl e)
        with c ci co show ?thesis by (simp add: row_body_def)
      next
        case cell: (Inr codes_cell)
        show ?thesis
        proof (cases "cell_split codes_cell '', ''")
          case (Inl e)
          with c ci co cell show ?thesis by (simp add: row_body_def)
        next
          case codes: (Inr strategy_codes)
          show ?thesis
          proof (cases "row_get r ''Short_Description''")
            case (Inl e)
            with c ci co cell codes show ?thesis by (simp add: row_body_def)
          next
            case d: (Inr d)
            from assms(1) c ci co cell codes
            have "\<forall>code\<in>set strategy_codes.
                    validate_strategy_code code (strategy_dict en) \<longrightarrow>
                    cache st (get_cache_key c ci co code) \<noteq> None"
              by (simp add: row_cache_keys_def)
            from process_codes_cached [OF this assms(2,3), of d "([], [], [])"]
            obtain res where
              "process_codes en c ci co d strategy_codes ([], [], []) st = (Inr res, st)"
              "process_codes en2 c ci co d strategy_codes ([], [], []) st2 = (Inr res, st2)"
              by blast
            with c ci co cell codes d show ?thesis by (simp add: row_body_def)
          qed
        qed
      qed
    qed
  qed
qed

lemma process_row_cached:
  assumes "\<forall>k\<in>set (row_cache_keys (strategy_dict en) r). cache st k \<noteq> None"
      and "strategy_dict en2 = strategy_dict en" and "cache st2 = cache st"
  shows "\<exists>acc'. process_row en r acc st = (acc', st) \<and> process_row en2 r acc st2 = (acc', st2)"
proof -
  from row_body_cached [OF assms] obtain res where
    res: "row_body en r st = (res, st)" "row_body en2 r st2 = (res, st2)"
    by blast
  obtain a s x where acc: "acc = (a, s, x)" by (cases acc) auto
  show ?thesis
  proof (cases res)
    case (Inl e)
    with res acc show ?thesis by (simp add: process_row_def)
  next
    case (Inr lists)
    obtain ra rs re where "lists = (ra, rs, re)" by (cases lists) auto
    with Inr res acc show ?thesis by (simp add: process_row_def)
  qed
qed

lemma process_rows_cached:
  assumes "\<forall>r\<in>set rs. \<forall>k\<in>set (row_cache_keys (strategy_dict en) r). cache st k \<noteq> None"
      and "strategy_dict en2 = strategy_dict en" and "cache st2 = cache st"
  shows "\<exists>acc'. process_rows en rs acc st = (acc', st) \<and> process_rows en2 rs acc st2 = (acc', st2)"
  using assms(1)
proof (induction rs arbitrary: acc)
  case Nil
  show ?case by (intro exI [of _ acc]) simp
next
  case (Cons r rs)
  from Cons.prems
  have one: "\<forall>k\<in>set (row_cache_keys (strategy_dict en) r). cache st k \<noteq> None"
    and rest: "\<forall>r\<in>set rs. \<forall>k\<in>set (row_cache_keys (strategy_dict en) r). cache st k \<noteq> None"
    by simp_all
  from process_row_cached [OF one assms(2,3), of acc] obtain acc1 where
    "process_row en r acc st = (acc1, st)" "process_row en2 r acc st2 = (acc1, st2)"
    by blast
  with Cons.IH [OF rest, of acc1] show ?case by simp
qed

lemma finish_again:
  "finish df acc s = (r, s') \<Longrightarrow>
     finish df acc s' = (r, s') \<and> cache s' = cache s \<and> cache_file s' = cache_file s
     \<and> client_calls s' = client_calls s \<and> save_calls s' = save_calls s"
  by (auto simp: finish_def split: prod.splits if_splits sum.splits)

lemma load_cache_cong:
  "cache_file s' = cache_file s \<Longrightarrow> load_cache s' = load_cache s"
  by (simp add: load_cache_def)

text \<open>
  C9. When the composite cache key of every known code of every row is in the
  response cache that the run loads, the run does not call the client and does
  not save: the cache in memory is the loaded one, and the cache file, the
  client calls and the save calls are as before. A second run over the same
  input, also with a client that would behave differently, returns the same
  result and leaves the state of the first run, output file included, as it is.
\<close>

theorem cached_run_idempotent:
  assumes keys: "\<forall>r\<in>set (rows df). \<forall>k\<in>set (row_cache_keys (strategy_dict en) r).
                   load_cache st0 k \<noteq> None"
      and dict: "strategy_dict en2 = strategy_dict en"
      and run1: "process_csv_and_save en df st0 = (res1, st1)"
      and run2: "process_csv_and_save en2 df st1 = (res2, st2)"
  shows "cache st1 = load_cache st0 \<and> cache_file st1 = cache_file st0
         \<and> client_calls st1 = client_calls st0 \<and> save_calls st1 = save_calls st0
         \<and> res2 = res1 \<and> st2 = st1"
proof -
  let ?s = "st0\<lparr>cache := load_cache st0\<rparr>"
  have keys': "\<forall>r\<in>set (rows df). \<forall>k\<in>set (row_cache_keys (strategy_dict en) r).
                 cache ?s k \<noteq> None"
    using keys by simp
  have first: "cache st1 = load_cache st0 \<and> cache_file st1 = cache_file st0
         \<and> client_calls st1 = client_calls st0 \<and> save_calls st1 = save_calls st0
         \<and> process_csv_and_save en2 df st1 = (res1, st1)"
  proof (cases "validate_columns df required_columns")
    case False
    with run1 have st1: "st1 = ?s" and res1: "res1 = Inr ()"
      by (simp_all add: process_csv_and_save_def)
    have "load_cache st1 = load_cache st0"
      unfolding st1 by (rule load_cache_cong) simp
    then have "st1\<lparr>cache := load_cache st1\<rparr> = st1"
      unfolding st1 by simp
    with False st1 res1 show ?thesis
      by (simp add: process_csv_and_save_def)
  next
    case True
    from process_rows_cached [OF keys' refl refl, of "([], [], [])"]
    obtain acc where loop: "process_rows en (rows df) ([], [], []) ?s = (acc, ?s)"
      by blast
    with run1 True have fin: "finish df acc ?s = (res1, st1)"
      by (simp add: process_csv_and_save_def)
    note again = finish_again [OF fin]
    from again have same: "cache st1 = load_cache st0" "cache_file st1 = cache_file st0"
      "client_calls st1 = client_calls st0" "save_calls st1 = save_calls st0"
      by simp_all
    have "load_cache st1 = load_cache st0"
      using same(2) by (rule load_cache_cong)
    with same(1) have start: "st1\<lparr>cache := load_cache st1\<rparr> = st1"
      by simp
    have "cache st1 = cache ?s"
      using same(1) by simp
    from process_rows_cached [OF keys' dict this, of "([], [], [])"] loop
    have "process_rows en2 (rows df) ([], [], []) st1 = (acc, st1)"
      by auto
    with True start again have "process_csv_and_save en2 df st1 = (res1, st1)"
      by (simp add: process_csv_and_save_def)
    with same show ?thesis by simp
  qed
  with run2 show ?thesis by simp
qed

text \<open>
  A cache file that holds the one key of a one-row input: both runs write the
  same output and the client, which would raise, is never called.
\<close>

theorem cached_run_idempotent_witness:
  "process_csv_and_save
     \<lparr>strategy_dict = [''R2'' \<mapsto> ''Reuse''],
      construct_prompt = (\<lambda>company city country code description. Inr code),
      get_openai_response = (\<lambda>messages n. Inl (Exn ''TimeoutError'' ''timed out'')),
      write_cache_file = (\<lambda>n. None)\<rparr>
     \<lparr>columns = required_columns,
      rows = [[''Company_Name'' \<mapsto> Str ''Acme'', ''City'' \<mapsto> Str ''Berlin'',
               ''Country'' \<mapsto> Str ''Germany'', ''RE_Strategy_Codes'' \<mapsto> Str ''R2, R99'',
               ''RE_Strategy_Names'' \<mapsto> Str ''Reuse'',
               ''Short_Description'' \<mapsto> Str ''repairs phones'']]\<rparr>
     \<lparr>cache = Map.empty,
      cache_file = Some [''Acme_Berlin_Germany_R2'' \<mapsto>
                           ''Agreement: Agree'' @ [CHR 0x0A] @ ''Strategy: R2''],
      client_calls = [], save_calls = 0, output_csv = None\<rparr>
   = (Inr (),
      \<lparr>cache = [''Acme_Berlin_Germany_R2'' \<mapsto>
                   ''Agreement: Agree'' @ [CHR 0x0A] @ ''Strategy: R2''],
       cache_file = Some [''Acme_Berlin_Germany_R2'' \<mapsto>
                            ''Agreement: Agree'' @ [CHR 0x0A] @ ''Strategy: R2''],
       client_calls = [], save_calls = 0,
       output_csv = Some [([''Company_Name'' \<mapsto> Str ''Acme'', ''City'' \<mapsto> Str ''Berlin'',
               ''Country'' \<mapsto> Str ''Germany'', ''RE_Strategy_Codes'' \<mapsto> Str ''R2, R99'',
               ''RE_Strategy_Names'' \<mapsto> Str ''Reuse'',
               ''Short_Description'' \<mapsto> Str ''repairs phones''],
              ''Agree, Invalid'', ''R2, Invalid strategy code: R99'', '', '')]\<rparr>)
   \<and> process_csv_and_save
     \<lparr>strategy_dict = [''R2'' \<mapsto> ''Reuse''],
      construct_prompt = (\<lambda>company city country code description. Inr code),
      get_openai_response = (\<lambda>messages n. Inr ''Agreement: Disagree''),
      write_cache_file = (\<lambda>n. None)\<rparr>
     \<lparr>columns = required_columns,
      rows = [[''Company_Name'' \<mapsto> Str ''Acme'', ''City'' \<mapsto> Str ''Berlin'',
               ''Country'' \<mapsto> Str ''Germany'', ''RE_Strategy_Codes'' \<mapsto> Str ''R2, R99'',
               ''RE_Strategy_Names'' \<mapsto> Str ''Reuse'',
               ''Short_Description'' \<mapsto> Str ''repairs phones'']]\<rparr>
     \<lparr>cache = [''Acme_Berlin_Germany_R2'' \<mapsto>
                   ''Agreement: Agree'' @ [CHR 0x0A] @ ''Strategy: R2''],
       cache_file = Some [''Acme_Berlin_Germany_R2'' \<mapsto>
                            ''Agreement: Agree'' @ [CHR 0x0A] @ ''Strategy: R2''],
       client_calls = [], save_calls = 0,
       output_csv = Some [([''Company_Name'' \<mapsto> Str ''Acme'', ''City'' \<mapsto> Str ''Berlin'',
               ''Country'' \<mapsto> Str ''Germany'', ''RE_Strategy_Codes'' \<mapsto> Str ''R2, R99'',
               ''RE_Strategy_Names'' \<mapsto> Str ''Reuse'',
               ''Short_Description'' \<mapsto> Str ''repairs phones''],
              ''Agree, Invalid'', ''R2, Invalid strategy code: R99'', '', '')]\<rparr>
   = (Inr (),
      \<lparr>cache = [''Acme_Berlin_Germany_R2'' \<mapsto>
                   ''Agreement: Agree'' @ [CHR 0x0A] @ ''Strategy: R2''],
       cache_file = Some [''Acme_Berlin_Germany_R2'' \<mapsto>
                            ''Agreement: Agree'' @ [CHR 0x0A] @ ''Strategy: R2''],
       client_calls = [], save_calls = 0,
       output_csv = Some [([''Company_Name'' \<mapsto> Str ''Acme'', ''City'' \<mapsto> Str ''Berlin'',
               ''Country'' \<mapsto> Str ''Germany'', ''RE_Strategy_Codes'' \<mapsto> Str ''R2, R99'',
               ''RE_Strategy_Names'' \<mapsto> Str ''Reuse'',
               ''Short_Description'' \<mapsto> Str ''repairs phones''],
              ''Agree, Invalid'', ''R2, Invalid strategy code: R99'', '', '')]\<rparr>)"
proof -
  let ?en = "\<lparr>strategy_dict = [''R2'' \<mapsto> ''Reuse''],
      construct_prompt = (\<lambda>company city country code description. Inr code),
      get_openai_response = (\<lambda>messages n. Inl (Exn ''TimeoutError'' ''timed out'')),
      write_cache_file = (\<lambda>n. None)\<rparr> :: (string, string) env"
  let ?en2 = "\<lparr>strategy_dict = [''R2'' \<mapsto> ''Reuse''],
      construct_prompt = (\<lambda>company city country code description. Inr code),
      get_openai_response = (\<lambda>messages n. Inr ''Agreement: Disagree''),
      write_cache_file = (\<lambda>n. None)\<rparr> :: (string, string) env"
  let ?row = "[''Company_Name'' \<mapsto> Str ''Acme'', ''City'' \<mapsto> Str ''Berlin'',
               ''Country'' \<mapsto> Str ''Germany'', ''RE_Strategy_Codes'' \<mapsto> Str ''R2, R99'',
               ''RE_Strategy_Names'' \<mapsto> Str ''Reuse'',
               ''Short_Description'' \<mapsto> Str ''repairs phones'']"
  let ?df = "\<lparr>columns = required_columns, rows = [?row]\<rparr>"
  let ?file = "[''Acme_Berlin_Germany_R2'' \<mapsto>
                   ''Agreement: Agree'' @ [CHR 0x0A] @ ''Strategy: R2'']"
  let ?st0 = "\<lparr>cache = Map.empty, cache_file = Some ?file,
      client_calls = [], save_calls = 0, output_csv = None\<rparr> :: string state"
  let ?st1 = "\<lparr>cache = ?file, cache_file = Some ?file, client_calls = [], save_calls = 0,
       output_csv = Some [(?row, ''Agree, Invalid'', ''R2, Invalid strategy code: R99'',
                           '', '')]\<rparr> :: string state"
  have keys: "\<forall>r\<in>set (rows ?df). \<forall>k\<in>set (row_cache_keys (strategy_dict ?en) r).
                   load_cache ?st0 k \<noteq> None"
    by (simp add: row_cache_keys_def row_get_def validate_strategy_code_def get_cache_key_def
          load_cache_def)
  have dict: "strategy_dict ?en2 = strategy_dict ?en"
    by simp
  have run1: "process_csv_and_save ?en ?df ?st0 = (Inr (), ?st1)"
    by (simp add: process_csv_and_save_def load_cache_def validate_columns_def
          required_columns_def process_row_def row_body_def row_get_def
          validate_strategy_code_def get_response_def get_cache_key_def
          parse_openai_response_def parse_body_def field_def getitem_def strip_def
          isspace_def finish_def set_column_def Let_def)
  obtain res2 st2 where run2: "process_csv_and_save ?en2 ?df ?st1 = (res2, st2)"
    by (metis prod.exhaust)
  from cached_run_idempotent [OF keys dict run1 run2] run1 run2
  show ?thesis by simp
qed

end
